theory Spec2Isabelle
  imports Complex_Main "HOL-Library.Multiset"
begin

section \<open>E-Mart backend (server.js): the request handlers as functions\<close>

text \<open>
  The development embeds the Express handlers of \<^verbatim>\<open>server.js\<close>: the registration,
  login and current-user routes with the cookie-token middleware, and the product
  listing and point-lookup routes.  A handler is a function from the request (and the
  state of the document store) to the response it sends; an exception thrown inside a
  handler's \<^verbatim>\<open>try\<close> block is a value \<open>Inl fault\<close> that the \<^verbatim>\<open>catch\<close> branch turns into
  the 500 response.

  Scope of the request model: a query-string parameter is absent or one string, and a
  field of a JSON body is absent or a string; strings are ASCII.
\<close>

subsection \<open>JavaScript numbers and the coercion of strings to numbers\<close>

text \<open>
  A number of the runtime is modelled by its mathematical value, or one of the three
  special values.  The rounding of IEEE doubles and the sign of zero are not modelled:
  the model is exact where every value involved is an integer below \<open>2^53\<close> or a small
  dyadic fraction, as at every concrete input evaluated below.
\<close>

datatype jsnum = NaN | PosInf | NegInf | Fin rat

fun js_neg :: "jsnum \<Rightarrow> jsnum" where
  "js_neg NaN = NaN"
| "js_neg PosInf = NegInf"
| "js_neg NegInf = PosInf"
| "js_neg (Fin a) = Fin (- a)"

text \<open>The operators \<^verbatim>\<open>-\<close>, \<^verbatim>\<open>*\<close> and \<^verbatim>\<open>/\<close> on numbers, and \<^verbatim>\<open>Math.ceil\<close>.\<close>

fun js_sub :: "jsnum \<Rightarrow> jsnum \<Rightarrow> jsnum" where
  "js_sub NaN _ = NaN"
| "js_sub _ NaN = NaN"
| "js_sub PosInf PosInf = NaN"
| "js_sub NegInf NegInf = NaN"
| "js_sub PosInf _ = PosInf"
| "js_sub NegInf _ = NegInf"
| "js_sub (Fin a) PosInf = NegInf"
| "js_sub (Fin a) NegInf = PosInf"
| "js_sub (Fin a) (Fin b) = Fin (a - b)"

fun js_sign :: "jsnum \<Rightarrow> int" where
  "js_sign NaN = 0"
| "js_sign PosInf = 1"
| "js_sign NegInf = - 1"
| "js_sign (Fin a) = (if a < 0 then - 1 else if a = 0 then 0 else 1)"

fun js_mul :: "jsnum \<Rightarrow> jsnum \<Rightarrow> jsnum" where
  "js_mul NaN _ = NaN"
| "js_mul _ NaN = NaN"
| "js_mul (Fin a) (Fin b) = Fin (a * b)"
| "js_mul x y =
     (let s = js_sign x * js_sign y
      in if s = 0 then NaN else if s < 0 then NegInf else PosInf)"

fun js_div :: "jsnum \<Rightarrow> jsnum \<Rightarrow> jsnum" where
  "js_div NaN _ = NaN"
| "js_div _ NaN = NaN"
| "js_div (Fin a) (Fin b) =
     (if b = 0 then (if a = 0 then NaN else if a < 0 then NegInf else PosInf)
      else Fin (a / b))"
| "js_div (Fin a) _ = Fin 0"
| "js_div x (Fin b) =
     (if js_sign x * (if b < 0 then - 1 else 1) < 0 then NegInf else PosInf)"
| "js_div _ _ = NaN"

fun Math_ceil :: "jsnum \<Rightarrow> jsnum" where
  "Math_ceil (Fin a) = Fin (of_int \<lceil>a\<rceil>)"
| "Math_ceil x = x"

text \<open>
  \<^verbatim>\<open>Number(s)\<close>, and the implicit conversion the arithmetic operators apply to a
  string operand (StringToNumber of ECMA-262): surrounding white space is dropped, the
  empty string is \<open>0\<close>, then a prefixed binary, octal or hexadecimal integer, or a signed
  decimal literal with optional fraction and exponent, or a signed \<^verbatim>\<open>Infinity\<close>;
  every other string is \<open>NaN\<close>.
\<close>

definition is_ws :: "char \<Rightarrow> bool" where
  "is_ws c = ((of_char c :: nat) \<in> {9, 10, 11, 12, 13, 32})"

definition trim :: "string \<Rightarrow> string" where
  "trim s = rev (dropWhile is_ws (rev (dropWhile is_ws s)))"

definition digit_val :: "char \<Rightarrow> nat option" where
  "digit_val c =
     (let n = (of_char c :: nat) in
      if 48 \<le> n \<and> n \<le> 57 then Some (n - 48)
      else if 97 \<le> n \<and> n \<le> 102 then Some (n - 87)
      else if 65 \<le> n \<and> n \<le> 70 then Some (n - 55)
      else None)"

definition is_digit :: "nat \<Rightarrow> char \<Rightarrow> bool" where
  "is_digit base c = (case digit_val c of None \<Rightarrow> False | Some d \<Rightarrow> d < base)"

definition digits_value :: "nat \<Rightarrow> string \<Rightarrow> nat" where
  "digits_value base ds = foldl (\<lambda>acc c. base * acc + (case digit_val c of None \<Rightarrow> 0 | Some d \<Rightarrow> d)) 0 ds"

definition radix_literal :: "nat \<Rightarrow> string \<Rightarrow> jsnum" where
  "radix_literal base ds =
     (if ds \<noteq> [] \<and> list_all (is_digit base) ds then Fin (of_nat (digits_value base ds))
      else NaN)"

definition exponent_part :: "string \<Rightarrow> int option" where
  "exponent_part s =
     (case s of
        [] \<Rightarrow> Some 0
      | c # r \<Rightarrow>
          if c = CHR ''e'' \<or> c = CHR ''E'' then
            (let (neg, ds) =
                   (case r of
                      [] \<Rightarrow> (False, [])
                    | d # r' \<Rightarrow>
                        if d = CHR ''-'' then (True, r')
                        else if d = CHR ''+'' then (False, r')
                        else (False, r))
             in if ds \<noteq> [] \<and> list_all (is_digit 10) ds
                then Some (if neg then - int (digits_value 10 ds) else int (digits_value 10 ds))
                else None)
          else None)"

definition unsigned_decimal :: "string \<Rightarrow> jsnum" where
  "unsigned_decimal s =
     (if s = ''Infinity'' then PosInf
      else
        let ip = takeWhile (is_digit 10) s;
            r1 = dropWhile (is_digit 10) s;
            (fp, r2) =
              (case r1 of
                 [] \<Rightarrow> ([], [])
               | c # t \<Rightarrow>
                   if c = CHR ''.''
                   then (takeWhile (is_digit 10) t, dropWhile (is_digit 10) t)
                   else ([], r1))
        in if ip = [] \<and> fp = [] then NaN
           else
             (case exponent_part r2 of
                None \<Rightarrow> NaN
              | Some e \<Rightarrow>
                  let m = (of_nat (digits_value 10 (ip @ fp)) :: rat) / 10 ^ length fp
                  in Fin (if 0 \<le> e then m * 10 ^ nat e else m / 10 ^ nat (- e))))"

definition toNumber :: "string \<Rightarrow> jsnum" where
  "toNumber s =
     (case trim s of
        [] \<Rightarrow> Fin 0
      | c # r \<Rightarrow>
          if c = CHR ''0'' \<and> r \<noteq> [] \<and> hd r \<in> {CHR ''x'', CHR ''X''} then radix_literal 16 (tl r)
          else if c = CHR ''0'' \<and> r \<noteq> [] \<and> hd r \<in> {CHR ''o'', CHR ''O''} then radix_literal 8 (tl r)
          else if c = CHR ''0'' \<and> r \<noteq> [] \<and> hd r \<in> {CHR ''b'', CHR ''B''} then radix_literal 2 (tl r)
          else if c = CHR ''-'' then js_neg (unsigned_decimal r)
          else if c = CHR ''+'' then unsigned_decimal r
          else unsigned_decimal (c # r))"

text \<open>Truthiness of a request value: \<^verbatim>\<open>undefined\<close> and the empty string are falsy.\<close>

fun truthy :: "string option \<Rightarrow> bool" where
  "truthy None = False"
| "truthy (Some s) = (s \<noteq> [])"

subsection \<open>Documents: the User and Product schemas\<close>

record user =
  u_id :: string
  u_name :: string
  u_email :: string
  u_password :: string
  u_createdAt :: nat

record review =
  r_user :: string
  r_comment :: string
  r_rating :: rat
  r_date :: nat

record product =
  p_id :: string
  p_name :: string
  p_title :: string
  p_brand :: string
  p_category :: string
  p_price :: rat
  p_rating :: rat
  p_description :: string
  p_stock :: rat
  p_image :: string
  p_reviews :: "review list"

subsection \<open>Filter and sort documents handed to the store\<close>

text \<open>
  The filter object the listing handler builds: \<^verbatim>\<open>query.$or = [{f: {$regex, $options}}, ...]\<close>
  is the clause \<open>Or\<close>, and \<^verbatim>\<open>query.f = ...\<close> is the clause \<open>Field f\<close>; the clauses of a
  filter are combined by conjunction.  The sort object is a list of keys with their
  directions.
\<close>

datatype test =
    Regex string string
  | Equals string
  | Range "jsnum option" "jsnum option"

datatype clause =
    Or "(string \<times> test) list"
  | Field string test

type_synonym query = "clause list"

type_synonym sort_doc = "(string \<times> int) list"

subsection \<open>The document store (Mongoose models \<^verbatim>\<open>User\<close> and \<^verbatim>\<open>Product\<close>)\<close>

text \<open>
  The store is the external collaborator of the handlers.  Its state is the two
  collections in store order and whether the connection is up.  What depends on the
  engine and its version is a parameter of the store and is not interpreted: the
  regular-expression engine (\<open>regex pat opts\<close> is the unanchored matcher of a pattern
  that compiles, \<open>None\<close> for one that does not), the ordering of a result under a sort
  document, the reading of a skip that is not a natural number or a limit that is not a
  natural number, and the well-formedness of an identifier string.  The rest follows the
  documented contract of the calls the handlers make: \<^verbatim>\<open>find\<close> filters, sorts, skips and
  limits, a limit of \<open>0\<close> meaning no limit; \<^verbatim>\<open>countDocuments\<close> counts the documents
  the filter matches; \<^verbatim>\<open>findById\<close> rejects an identifier that cannot be cast;
  \<^verbatim>\<open>findOne({email})\<close> is the first user with that email; \<^verbatim>\<open>save\<close> appends unless
  the unique index on \<^verbatim>\<open>email\<close> (or the identifier) is violated; a filter bound that is
  \<open>NaN\<close> cannot be cast to the schema's Number.
\<close>

datatype fault = ConnectionLost | CastError | InvalidRegex | DuplicateKey | Rejected

record store =
  users :: "user list"
  products :: "product list"
  connected :: bool
  regex :: "string \<Rightarrow> string \<Rightarrow> (string \<Rightarrow> bool) option"
  sorted_by :: "sort_doc \<Rightarrow> product list \<Rightarrow> fault + product list"
  odd_window :: "jsnum \<Rightarrow> jsnum \<Rightarrow> fault + nat \<times> nat"
  is_objectid :: "string \<Rightarrow> bool"

definition text_field :: "string \<Rightarrow> product \<Rightarrow> string option" where
  "text_field f p =
     (if f = ''name'' then Some (p_name p)
      else if f = ''title'' then Some (p_title p)
      else if f = ''brand'' then Some (p_brand p)
      else if f = ''category'' then Some (p_category p)
      else if f = ''description'' then Some (p_description p)
      else if f = ''image'' then Some (p_image p)
      else None)"

definition num_field :: "string \<Rightarrow> product \<Rightarrow> rat option" where
  "num_field f p =
     (if f = ''price'' then Some (p_price p)
      else if f = ''rating'' then Some (p_rating p)
      else if f = ''stock'' then Some (p_stock p)
      else None)"

fun js_le :: "jsnum \<Rightarrow> jsnum \<Rightarrow> bool" where
  "js_le NaN _ = False"
| "js_le _ NaN = False"
| "js_le NegInf _ = True"
| "js_le _ PosInf = True"
| "js_le (Fin a) (Fin b) = (a \<le> b)"
| "js_le _ _ = False"

text \<open>Whether the store accepts a test, and whether a document passes it.\<close>

fun test_fault :: "store \<Rightarrow> test \<Rightarrow> fault option" where
  "test_fault st (Regex pat opts) = (if regex st pat opts = None then Some InvalidRegex else None)"
| "test_fault st (Equals v) = None"
| "test_fault st (Range lo hi) = (if lo = Some NaN \<or> hi = Some NaN then Some CastError else None)"

fun passes :: "store \<Rightarrow> product \<Rightarrow> string \<Rightarrow> test \<Rightarrow> bool" where
  "passes st p f (Regex pat opts) =
     (case (regex st pat opts, text_field f p) of
        (Some m, Some v) \<Rightarrow> m v
      | _ \<Rightarrow> False)"
| "passes st p f (Equals v) = (text_field f p = Some v)"
| "passes st p f (Range lo hi) =
     (case num_field f p of
        None \<Rightarrow> False
      | Some x \<Rightarrow>
          (case lo of None \<Rightarrow> True | Some l \<Rightarrow> js_le l (Fin x)) \<and>
          (case hi of None \<Rightarrow> True | Some h \<Rightarrow> js_le (Fin x) h))"

fun clause_tests :: "clause \<Rightarrow> test list" where
  "clause_tests (Or ds) = map snd ds"
| "clause_tests (Field f t) = [t]"

fun satisfies :: "store \<Rightarrow> product \<Rightarrow> clause \<Rightarrow> bool" where
  "satisfies st p (Or ds) = list_ex (\<lambda>(f, t). passes st p f t) ds"
| "satisfies st p (Field f t) = passes st p f t"

definition matches :: "store \<Rightarrow> query \<Rightarrow> product \<Rightarrow> bool" where
  "matches st q p = list_all (satisfies st p) q"

definition query_fault :: "store \<Rightarrow> query \<Rightarrow> fault option" where
  "query_fault st q =
     (if \<not> connected st then Some ConnectionLost
      else case List.map_filter (test_fault st) (concat (map clause_tests q)) of
             [] \<Rightarrow> None
           | e # _ \<Rightarrow> Some e)"

definition as_nat :: "jsnum \<Rightarrow> nat option" where
  "as_nat x = (case x of Fin a \<Rightarrow> if 0 \<le> a \<and> of_int \<lfloor>a\<rfloor> = a then Some (nat \<lfloor>a\<rfloor>) else None
                       | _ \<Rightarrow> None)"

definition window :: "store \<Rightarrow> jsnum \<Rightarrow> jsnum \<Rightarrow> fault + nat \<times> nat" where
  "window st skip lmt =
     (case (as_nat skip, as_nat lmt) of
        (Some s, Some l) \<Rightarrow> Inr (s, l)
      | _ \<Rightarrow> odd_window st skip lmt)"

definition cut :: "nat \<times> nat \<Rightarrow> 'a list \<Rightarrow> 'a list" where
  "cut w xs = (case w of (s, l) \<Rightarrow> if l = 0 then drop s xs else take l (drop s xs))"

text \<open>\<^verbatim>\<open>Product.find(q).sort(srt).skip(skip).limit(lmt)\<close>, awaited.\<close>

definition Product_find ::
  "store \<Rightarrow> query \<Rightarrow> sort_doc \<Rightarrow> jsnum \<Rightarrow> jsnum \<Rightarrow> fault + product list" where
  "Product_find st q srt skip lmt =
     (case query_fault st q of
        Some e \<Rightarrow> Inl e
      | None \<Rightarrow>
          (case sorted_by st srt (filter (matches st q) (products st)) of
             Inl e \<Rightarrow> Inl e
           | Inr xs \<Rightarrow>
               (case window st skip lmt of
                  Inl e \<Rightarrow> Inl e
                | Inr w \<Rightarrow> Inr (cut w xs))))"

definition Product_countDocuments :: "store \<Rightarrow> query \<Rightarrow> fault + nat" where
  "Product_countDocuments st q =
     (case query_fault st q of
        Some e \<Rightarrow> Inl e
      | None \<Rightarrow> Inr (length (filter (matches st q) (products st))))"


definition User_findById :: "store \<Rightarrow> string \<Rightarrow> fault + user option" where
  "User_findById st i =
     (if \<not> connected st then Inl ConnectionLost
      else if \<not> is_objectid st i then Inl CastError
      else Inr (find (\<lambda>u. u_id u = i) (users st)))"

definition User_findOne :: "store \<Rightarrow> string \<Rightarrow> fault + user option" where
  "User_findOne st e =
     (if \<not> connected st then Inl ConnectionLost
      else Inr (find (\<lambda>u. u_email u = e) (users st)))"

definition User_save :: "store \<Rightarrow> user \<Rightarrow> fault + store" where
  "User_save st u =
     (if \<not> connected st then Inl ConnectionLost
      else if list_ex (\<lambda>v. u_email v = u_email u \<or> u_id v = u_id u) (users st)
      then Inl DuplicateKey
      else Inr (st\<lparr>users := users st @ [u]\<rparr>))"


subsection \<open>Session tokens (\<^verbatim>\<open>jsonwebtoken\<close>) and password hashing (\<^verbatim>\<open>bcryptjs\<close>)\<close>

text \<open>
  A cookie value is shown decoded: either a signed token, that is its claims and its
  signature, or a string that does not decode to one.
\<close>

record claims =
  userId :: string
  iat :: nat
  exp :: nat

datatype token = Jws claims string | Opaque string

datatype jwt_error = JwtMalformed | InvalidSignature | TokenExpired

text \<open>
  Modelled from the spec: the functions \<^verbatim>\<open>jwt.sign\<close> and \<^verbatim>\<open>jwt.verify\<close> of the
  \<^verbatim>\<open>jsonwebtoken\<close> package, which the sources call and do not contain.  The spec
  (4.2) has \<^verbatim>\<open>issue\<close> produce a signed, tamper-evident token embedding the user
  identifier and an expiry fixed at issuance plus the lifetime, and has \<^verbatim>\<open>verify\<close> fail
  when the signature check fails, the payload is malformed, or the expiry has passed.
  Times are in seconds; \<open>mac\<close> is the keyed signature function.
\<close>

definition jwt_sign ::
  "(string \<Rightarrow> claims \<Rightarrow> string) \<Rightarrow> string \<Rightarrow> string \<Rightarrow> nat \<Rightarrow> nat \<Rightarrow> token" where
  "jwt_sign mac uid secret expiresIn t =
     (let c = \<lparr>userId = uid, iat = t, exp = t + expiresIn\<rparr> in Jws c (mac secret c))"

fun jwt_verify ::
  "(string \<Rightarrow> claims \<Rightarrow> string) \<Rightarrow> token \<Rightarrow> string \<Rightarrow> nat \<Rightarrow> jwt_error + claims" where
  "jwt_verify mac (Opaque s) secret t = Inl JwtMalformed"
| "jwt_verify mac (Jws c sg) secret t =
     (if sg \<noteq> mac secret c then Inl InvalidSignature
      else if exp c \<le> t then Inl TokenExpired
      else Inr c)"

text \<open>
  What a request finds in the process: the environment variable, the clock
  (\<^verbatim>\<open>Date.now()\<close>, milliseconds), the identifier Mongoose gives the next new document,
  the two \<^verbatim>\<open>bcryptjs\<close> functions (the salt drawn for this request included) and the
  signature function of the token library.
\<close>

record env =
  env_JWT_SECRET :: "string option"
  now :: nat
  new_id :: string
  bcrypt_hash :: "string \<Rightarrow> nat \<Rightarrow> string"
  bcrypt_compare :: "string \<Rightarrow> string \<Rightarrow> bool"
  hmac :: "string \<Rightarrow> claims \<Rightarrow> string"

text \<open>\<^verbatim>\<open>const JWT_SECRET = process.env.JWT_SECRET || 'your-secret-key-here'\<close>\<close>

definition JWT_SECRET :: "env \<Rightarrow> string" where
  "JWT_SECRET e =
     (case env_JWT_SECRET e of
        None \<Rightarrow> ''your-secret-key-here''
      | Some s \<Rightarrow> if s = [] then ''your-secret-key-here'' else s)"

text \<open>The lifetime \<^verbatim>\<open>'7d'\<close> of \<^verbatim>\<open>{ expiresIn: '7d' }\<close>, in seconds.\<close>

definition expiresIn_7d :: nat where
  "expiresIn_7d = 7 * 24 * 60 * 60"

text \<open>\<^verbatim>\<open>jwt.sign({ userId: user._id }, JWT_SECRET, { expiresIn: '7d' })\<close>, in both handlers.\<close>

definition issue :: "env \<Rightarrow> string \<Rightarrow> token" where
  "issue e uid = jwt_sign (hmac e) uid (JWT_SECRET e) expiresIn_7d (now e div 1000)"

subsection \<open>Responses\<close>

record cookie_options =
  httpOnly :: bool
  sameSite :: string
  secure :: bool
  maxAge :: nat

definition cookieOptions :: cookie_options where
  "cookieOptions = \<lparr>httpOnly = True, sameSite = ''none'', secure = True,
                     maxAge = 7 * 24 * 60 * 60 * 1000\<rparr>"

datatype set_cookie = SetCookie string token cookie_options

record pagination =
  pg_page :: jsnum
  pg_limit :: jsnum
  pg_total :: nat
  pg_pages :: jsnum

text \<open>
  The JSON bodies the handlers send.  \<open>ServerError m d\<close> is \<^verbatim>\<open>{message: m, error: error.message}\<close>,
  with \<open>d = None\<close> where the handler sends no \<^verbatim>\<open>error\<close> member; \<open>Session m i n e\<close> is
  \<^verbatim>\<open>{message: m, user: {id: i, name: n, email: e}}\<close>; \<open>UserDoc\<close> is a user document
  without its password; \<open>Null\<close> is the body \<^verbatim>\<open>null\<close>.
\<close>

datatype body =
    Message string
  | ServerError string "fault option"
  | Session string string string string
  | UserDoc string string string nat
  | Null
  | ProductDoc product
  | ProductPage "product list" pagination

record response =
  status :: nat
  body :: body
  cookies :: "set_cookie list"

definition send :: "nat \<Rightarrow> body \<Rightarrow> response" where
  "send code b = \<lparr>status = code, body = b, cookies = []\<rparr>"

subsection \<open>Auth middleware and auth routes\<close>

text \<open>
  The middleware either answers the request itself or calls \<^verbatim>\<open>next()\<close> with
  \<^verbatim>\<open>req.userId\<close> set: \<open>Next uid\<close>.
\<close>

datatype passage = Respond response | Next string

definition authMiddleware :: "env \<Rightarrow> token option \<Rightarrow> passage" where
  "authMiddleware e cookie =
     (case cookie of
        None \<Rightarrow> Respond (send 401 (Message ''No authentication token provided''))
      | Some tok \<Rightarrow>
          if tok = Opaque [] then Respond (send 401 (Message ''No authentication token provided''))
          else
            (case jwt_verify (hmac e) tok (JWT_SECRET e) (now e div 1000) of
               Inl err \<Rightarrow> Respond (send 401 (Message ''Invalid token''))
             | Inr decoded \<Rightarrow> Next (userId decoded)))"

record credentials =
  name :: "string option"
  email :: "string option"
  password :: "string option"

text \<open>\<^verbatim>\<open>POST /api/auth/register\<close>: the new store and the response.\<close>

definition register :: "env \<Rightarrow> store \<Rightarrow> credentials \<Rightarrow> store \<times> response" where
  "register e st b =
     (if \<not> truthy (name b) \<or> \<not> truthy (email b) \<or> \<not> truthy (password b)
      then (st, send 400 (Message ''All fields are required''))
      else
        (case User_findOne st (the (email b)) of
           Inl err \<Rightarrow> (st, send 500 (ServerError ''Server error'' (Some err)))
         | Inr (Some existingUser) \<Rightarrow> (st, send 400 (Message ''User already exists''))
         | Inr None \<Rightarrow>
             (let hashedPassword = bcrypt_hash e (the (password b)) 10;
                  user = \<lparr>u_id = new_id e, u_name = the (name b), u_email = the (email b),
                          u_password = hashedPassword, u_createdAt = now e\<rparr>
              in case User_save st user of
                   Inl err \<Rightarrow> (st, send 500 (ServerError ''Server error'' (Some err)))
                 | Inr st' \<Rightarrow>
                     (st', \<lparr>status = 201,
                            body = Session ''User registered successfully''
                                     (u_id user) (u_name user) (u_email user),
                            cookies = [SetCookie ''token'' (issue e (u_id user)) cookieOptions]\<rparr>))))"


text \<open>
  \<^verbatim>\<open>GET /api/auth/me\<close>: the handler behind the middleware, and the route as Express
  composes the two.
\<close>

definition me_handler :: "store \<Rightarrow> string \<Rightarrow> response" where
  "me_handler st uid =
     (case User_findById st uid of
        Inl err \<Rightarrow> send 500 (ServerError ''Server error'' None)
      | Inr None \<Rightarrow> send 200 Null
      | Inr (Some u) \<Rightarrow> send 200 (UserDoc (u_id u) (u_name u) (u_email u) (u_createdAt u)))"

definition me_route :: "env \<Rightarrow> store \<Rightarrow> token option \<Rightarrow> response" where
  "me_route e st cookie =
     (case authMiddleware e cookie of
        Respond r \<Rightarrow> r
      | Next uid \<Rightarrow> me_handler st uid)"

subsection \<open>Product routes\<close>

record products_query =
  page :: "string option"
  limit :: "string option"
  search :: "string option"
  sortBy :: "string option"
  order :: "string option"
  category :: "string option"
  brand :: "string option"
  minPrice :: "string option"
  maxPrice :: "string option"

text \<open>
  A destructuring default applies to a parameter that is \<^verbatim>\<open>undefined\<close> only.  The
  numeric defaults are numbers; a parameter that is present is a string, which every
  use in the handler (\<^verbatim>\<open>page - 1\<close>, \<^verbatim>\<open>* limit\<close>, \<^verbatim>\<open>/ limit\<close>, \<^verbatim>\<open>Number(...)\<close>)
  converts with \<open>toNumber\<close>.
\<close>

definition num_param :: "string option \<Rightarrow> rat \<Rightarrow> jsnum" where
  "num_param v dflt = (case v of None \<Rightarrow> Fin dflt | Some s \<Rightarrow> toNumber s)"

definition str_param :: "string option \<Rightarrow> string \<Rightarrow> string" where
  "str_param v dflt = (case v of None \<Rightarrow> dflt | Some s \<Rightarrow> s)"

text \<open>
  The assignment \<^verbatim>\<open>obj[key] = value\<close> on a plain object whose values are numbers.
  The key \<^verbatim>\<open>__proto__\<close> is the accessor inherited from \<^verbatim>\<open>Object.prototype\<close>, whose
  setter ignores a value that is neither an object nor \<^verbatim>\<open>null\<close>; every other key
  becomes (or updates) an own property.
\<close>

fun put :: "(string \<times> 'v) list \<Rightarrow> string \<Rightarrow> 'v \<Rightarrow> (string \<times> 'v) list" where
  "put [] k v = [(k, v)]"
| "put ((k', v') # kvs) k v = (if k' = k then (k, v) # kvs else (k', v') # put kvs k v)"

definition assign :: "(string \<times> 'v) list \<Rightarrow> string \<Rightarrow> 'v \<Rightarrow> (string \<times> 'v) list" where
  "assign obj k v = (if k = ''__proto__'' then obj else put obj k v)"

text \<open>Lines 222--240: the filter.\<close>

definition build_query :: "products_query \<Rightarrow> query" where
  "build_query r =
     (let search = str_param (search r) [] in
      (if search \<noteq> [] then
         [Or [(''name'', Regex search ''i''),
              (''title'', Regex search ''i''),
              (''brand'', Regex search ''i''),
              (''category'', Regex search ''i'')]]
       else []) @
      (if truthy (category r) then [Field ''category'' (Equals (the (category r)))] else []) @
      (if truthy (brand r) then [Field ''brand'' (Equals (the (brand r)))] else []) @
      (if truthy (minPrice r) \<or> truthy (maxPrice r) then
         [Field ''price''
            (Range (if truthy (minPrice r) then Some (toNumber (the (minPrice r))) else None)
                   (if truthy (maxPrice r) then Some (toNumber (the (maxPrice r))) else None))]
       else []))"

text \<open>Lines 242--244: the sort document.\<close>

definition build_sort :: "products_query \<Rightarrow> sort_doc" where
  "build_sort r =
     (let sortBy = str_param (sortBy r) ''createdAt'';
          order = str_param (order r) ''desc''
      in assign [] sortBy (if order = ''asc'' then 1 else - 1))"

text \<open>\<^verbatim>\<open>GET /api/products\<close>\<close>

definition products_handler :: "store \<Rightarrow> products_query \<Rightarrow> response" where
  "products_handler st r =
     (let page = num_param (page r) 1;
          limit = num_param (limit r) 8;
          query = build_query r;
          sortOptions = build_sort r;
          skip = js_mul (js_sub page (Fin 1)) limit
      in case Product_find st query sortOptions skip limit of
           Inl err \<Rightarrow> send 500 (ServerError ''Server error'' (Some err))
         | Inr found \<Rightarrow>
             (case Product_countDocuments st query of
                Inl err \<Rightarrow> send 500 (ServerError ''Server error'' (Some err))
              | Inr n \<Rightarrow>
                  send 200
                    (ProductPage found
                       \<lparr>pg_page = page, pg_limit = limit, pg_total = n,
                        pg_pages = Math_ceil (js_div (Fin (of_nat n)) limit)\<rparr>)))"


subsection \<open>Reading a response\<close>

definition items :: "response \<Rightarrow> product list" where
  "items r = (case body r of ProductPage ps pg \<Rightarrow> ps | _ \<Rightarrow> [])"

definition page_info :: "response \<Rightarrow> pagination option" where
  "page_info r = (case body r of ProductPage ps pg \<Rightarrow> Some pg | _ \<Rightarrow> None)"


text \<open>The \<^verbatim>\<open>$or\<close> groups of a filter, and all its regular-expression tests.\<close>

fun or_groups :: "query \<Rightarrow> (string \<times> test) list list" where
  "or_groups [] = []"
| "or_groups (Or ds # q) = ds # or_groups q"
| "or_groups (Field f t # q) = or_groups q"

fun is_regex :: "test \<Rightarrow> bool" where
  "is_regex (Regex pat opts) = True"
| "is_regex t = False"

definition regex_tests :: "query \<Rightarrow> test list" where
  "regex_tests q = filter is_regex (concat (map clause_tests q))"

text \<open>
  The one thing assumed of the store's ordering where a statement below needs it: what
  it returns is a rearrangement of what it was given.
\<close>

definition sort_rearranges :: "store \<Rightarrow> bool" where
  "sort_rearranges st = (\<forall>srt xs ys. sorted_by st srt xs = Inr ys \<longrightarrow> mset ys = mset xs)"


text \<open>
  Case-insensitive substring containment, as the specification words the text
  predicate: \<open>ci_substring s v\<close> holds when \<open>s\<close> occurs in \<open>v\<close> up to the case of ASCII
  letters.
\<close>

definition lower :: "char \<Rightarrow> char" where
  "lower c =
     (case map_of (zip ''ABCDEFGHIJKLMNOPQRSTUVWXYZ'' ''abcdefghijklmnopqrstuvwxyz'') c of
        None \<Rightarrow> c
      | Some d \<Rightarrow> d)"

fun ci_prefix :: "string \<Rightarrow> string \<Rightarrow> bool" where
  "ci_prefix [] v = True"
| "ci_prefix (c # s) [] = False"
| "ci_prefix (c # s) (d # v) = (lower c = lower d \<and> ci_prefix s v)"

fun ci_substring :: "string \<Rightarrow> string \<Rightarrow> bool" where
  "ci_substring s [] = (s = [])"
| "ci_substring s (d # v) = (ci_prefix s (d # v) \<or> ci_substring s v)"

subsection \<open>A concrete store and environment\<close>

text \<open>
  A small store to evaluate the handlers on.  Its regular-expression engine knows the
  option \<^verbatim>\<open>i\<close> and patterns made of the wildcard \<^verbatim>\<open>.\<close> (any character but a line
  feed) and of letters, digits and spaces standing for themselves; it compiles no other
  pattern.  It keeps store order under every sort document, rejects every skip or limit
  that is not a natural number, and takes the strings of 24 hexadecimal digits for
  identifiers.
\<close>

definition plain_char :: "char \<Rightarrow> bool" where
  "plain_char c =
     (let n = (of_char c :: nat)
      in n = 32 \<or> n = 46 \<or> (48 \<le> n \<and> n \<le> 57) \<or> (65 \<le> n \<and> n \<le> 90) \<or> (97 \<le> n \<and> n \<le> 122))"

fun match_here :: "string \<Rightarrow> string \<Rightarrow> bool" where
  "match_here [] v = True"
| "match_here (c # s) [] = False"
| "match_here (c # s) (d # v) =
     ((if c = CHR ''.'' then d \<noteq> CHR 0x0A else lower c = lower d) \<and> match_here s v)"

fun match_anywhere :: "string \<Rightarrow> string \<Rightarrow> bool" where
  "match_anywhere s [] = (s = [])"
| "match_anywhere s (d # v) = (match_here s (d # v) \<or> match_anywhere s v)"

definition dot_regex :: "string \<Rightarrow> string \<Rightarrow> (string \<Rightarrow> bool) option" where
  "dot_regex pat opts =
     (if opts = ''i'' \<and> list_all plain_char pat then Some (match_anywhere pat) else None)"

definition hex24 :: "string \<Rightarrow> bool" where
  "hex24 s = (length s = 24 \<and> list_all (is_digit 16) s)"

definition apple :: product where
  "apple = \<lparr>p_id = ''64b000000000000000000001'', p_name = ''Apple'', p_title = ''Red apple'',
            p_brand = ''FreshFarm'', p_category = ''Fruits'', p_price = 12, p_rating = 4,
            p_description = ''Crisp'', p_stock = 30, p_image = ''apple'', p_reviews = []\<rparr>"

definition milk :: product where
  "milk = \<lparr>p_id = ''64b000000000000000000002'', p_name = ''Milk'', p_title = ''Whole milk'',
           p_brand = ''PureHarvest'', p_category = ''Dairy'', p_price = 3, p_rating = 5,
           p_description = ''Fresh'', p_stock = 10, p_image = ''milk'', p_reviews = []\<rparr>"

definition bread :: product where
  "bread = \<lparr>p_id = ''64b000000000000000000003'', p_name = ''Bread'', p_title = ''Rye bread'',
            p_brand = ''FarmFresh'', p_category = ''Bakery'', p_price = 5, p_rating = 3,
            p_description = ''Dark'', p_stock = 7, p_image = ''bread'', p_reviews = []\<rparr>"

definition shop :: store where
  "shop = \<lparr>users = [], products = [apple, milk, bread], connected = True,
           regex = dot_regex, sorted_by = (\<lambda>srt xs. Inr xs),
           odd_window = (\<lambda>skp lmt. Inl Rejected), is_objectid = hex24\<rparr>"

definition box :: env where
  "box = \<lparr>env_JWT_SECRET = None, now = 86400000, new_id = ''64b0000000000000000000aa'',
          bcrypt_hash = (\<lambda>pw rounds. ''$2a$'' @ pw), bcrypt_compare = (\<lambda>pw h. h = ''$2a$'' @ pw),
          hmac = (\<lambda>key c. key @ userId c)\<rparr>"

definition no_query :: products_query where
  "no_query = \<lparr>page = None, limit = None, search = None, sortBy = None, order = None,
               category = None, brand = None, minPrice = None, maxPrice = None\<rparr>"

definition al :: user where
  "al = \<lparr>u_id = ''64b0000000000000000000aa'', u_name = ''Al'', u_email = ''al@example.com'',
         u_password = ''$2a$secret'', u_createdAt = 0\<rparr>"


definition al_signup :: credentials where
  "al_signup = \<lparr>name = Some ''Al'', email = Some ''al@example.com'', password = Some ''secret''\<rparr>"

section \<open>Properties\<close>

lemma send_simps [simp]:
  "status (send c b) = c" "body (send c b) = b" "cookies (send c b) = []"
  by (simp_all add: send_def)

subsection \<open>The sort document\<close>

text \<open>
  Claim C8, as amended.  \<^verbatim>\<open>sortBy\<close> defaults to \<^verbatim>\<open>createdAt\<close> and \<^verbatim>\<open>order\<close> to
  descending when absent.  For every \<^verbatim>\<open>sortBy\<close> other than \<^verbatim>\<open>__proto__\<close> the sort
  document has exactly one key, the chosen key, mapped to \<open>+1\<close> when \<^verbatim>\<open>order\<close> is
  \<^verbatim>\<open>asc\<close> and to \<open>-1\<close> otherwise.  For \<^verbatim>\<open>sortBy=__proto__\<close> the assignment
  \<^verbatim>\<open>sortOptions[sortBy] = ...\<close> reaches the inherited setter, which ignores a number,
  and the sort document stays empty.
\<close>

theorem sort_directive:
  "(sortBy r = None \<longrightarrow> order r = None \<longrightarrow> build_sort r = [(''createdAt'', - 1)]) \<and>
   (\<forall>k. sortBy r = Some k \<and> k \<noteq> ''__proto__'' \<longrightarrow>
        build_sort r = [(k, if order r = Some ''asc'' then 1 else - 1)]) \<and>
   (sortBy r = None \<longrightarrow>
        build_sort r = [(''createdAt'', if order r = Some ''asc'' then 1 else - 1)]) \<and>
   (sortBy r = Some ''__proto__'' \<longrightarrow> build_sort r = [])"
  by (auto simp add: build_sort_def assign_def str_param_def split: option.splits)

theorem sort_directive_witness:
  "build_sort (no_query\<lparr>sortBy := Some ''price'', order := Some ''asc''\<rparr>) = [(''price'', 1)] \<and>
   build_sort no_query = [(''createdAt'', - 1)]"
  using sort_directive [of "no_query\<lparr>sortBy := Some ''price'', order := Some ''asc''\<rparr>"]
        sort_directive [of no_query]
  by (simp add: no_query_def)

text \<open>
  Claim C8 as stated fails: the request \<^verbatim>\<open>GET /api/products?sortBy=__proto__\<close> builds
  a sort document with no key at all.
\<close>

theorem sort_directive_proto:
  "build_sort (no_query\<lparr>sortBy := Some ''__proto__''\<rparr>) = [] \<and>
   length (build_sort (no_query\<lparr>sortBy := Some ''__proto__''\<rparr>)) \<noteq> 1"
  by (simp add: build_sort_def assign_def str_param_def no_query_def)

subsection \<open>Point lookup of a product\<close>




subsection \<open>Login\<close>



subsection \<open>Session tokens\<close>

lemma verify_issue:
  "jwt_verify (hmac e) (issue e uid) (JWT_SECRET e) (now e div 1000) =
     Inr \<lparr>userId = uid, iat = now e div 1000, exp = now e div 1000 + 7 * 24 * 60 * 60\<rparr>"
  by (simp add: issue_def jwt_sign_def expiresIn_7d_def Let_def)

text \<open>
  Claim C4.  For every user identifier, the token a handler issues for it, presented to
  the middleware at the same clock reading, yields that identifier; the token's expiry is
  its issuance time (the clock in whole seconds) plus 7 days, and the token is accepted
  at every clock reading before that; and a cookie that does not decode to a token, a
  token whose signature is not the one the secret gives its claims, and a token whose
  expiry has passed all fail verification and are answered with status 401 and no
  identifier.
\<close>

theorem session_token_roundtrip:
  "authMiddleware e (Some (issue e uid)) = Next uid \<and>
   (\<exists>sg. issue e uid =
      Jws \<lparr>userId = uid, iat = now e div 1000, exp = now e div 1000 + 7 * 24 * 60 * 60\<rparr> sg) \<and>
   (\<forall>e'. hmac e' = hmac e \<and> JWT_SECRET e' = JWT_SECRET e \<and>
          now e' div 1000 < now e div 1000 + 7 * 24 * 60 * 60 \<longrightarrow>
          authMiddleware e' (Some (issue e uid)) = Next uid) \<and>
   (\<forall>tok. (\<exists>s. tok = Opaque s) \<or>
          (\<exists>c sg. tok = Jws c sg \<and> (sg \<noteq> hmac e (JWT_SECRET e) c \<or> exp c \<le> now e div 1000)) \<longrightarrow>
          (\<exists>err. jwt_verify (hmac e) tok (JWT_SECRET e) (now e div 1000) = Inl err) \<and>
          authMiddleware e (Some tok) =
            Respond (send 401 (Message (if tok = Opaque [] then ''No authentication token provided''
                                        else ''Invalid token''))))"
proof -
  have a: "authMiddleware e (Some (issue e uid)) = Next uid"
    by (simp add: authMiddleware_def issue_def jwt_sign_def expiresIn_7d_def Let_def)
  have b: "\<exists>sg. issue e uid =
      Jws \<lparr>userId = uid, iat = now e div 1000, exp = now e div 1000 + 7 * 24 * 60 * 60\<rparr> sg"
    by (simp add: issue_def jwt_sign_def expiresIn_7d_def Let_def)
  have c: "\<forall>e'. hmac e' = hmac e \<and> JWT_SECRET e' = JWT_SECRET e \<and>
          now e' div 1000 < now e div 1000 + 7 * 24 * 60 * 60 \<longrightarrow>
          authMiddleware e' (Some (issue e uid)) = Next uid"
    by (simp add: authMiddleware_def issue_def jwt_sign_def expiresIn_7d_def Let_def)
  have d: "\<forall>tok. (\<exists>s. tok = Opaque s) \<or>
          (\<exists>c sg. tok = Jws c sg \<and> (sg \<noteq> hmac e (JWT_SECRET e) c \<or> exp c \<le> now e div 1000)) \<longrightarrow>
          (\<exists>err. jwt_verify (hmac e) tok (JWT_SECRET e) (now e div 1000) = Inl err) \<and>
          authMiddleware e (Some tok) =
            Respond (send 401 (Message (if tok = Opaque [] then ''No authentication token provided''
                                        else ''Invalid token'')))"
    by (auto simp add: authMiddleware_def)
  from a b c d show ?thesis by blast
qed

theorem session_token_roundtrip_witness:
  "authMiddleware (box\<lparr>now := now box + 604799999\<rparr>) (Some (issue box ''64b0000000000000000000aa''))
     = Next ''64b0000000000000000000aa'' \<and>
   authMiddleware (box\<lparr>now := now box + 604800000\<rparr>) (Some (issue box ''64b0000000000000000000aa''))
     = Respond (send 401 (Message ''Invalid token'')) \<and>
   authMiddleware box (Some (Jws \<lparr>userId = ''64b0000000000000000000aa'', iat = 0, exp = 99999999\<rparr> ''forged''))
     = Respond (send 401 (Message ''Invalid token'')) \<and>
   authMiddleware box (Some (Opaque ''garbage'')) = Respond (send 401 (Message ''Invalid token''))"
proof -
  let ?late = "box\<lparr>now := now box + 604799999\<rparr>"
  have h: "hmac ?late = hmac box \<and> JWT_SECRET ?late = JWT_SECRET box \<and>
           now ?late div 1000 < now box div 1000 + 7 * 24 * 60 * 60"
    by (simp add: box_def JWT_SECRET_def)
  from session_token_roundtrip [of box "''64b0000000000000000000aa''"] h
  have 1: "authMiddleware ?late (Some (issue box ''64b0000000000000000000aa'')) = Next ''64b0000000000000000000aa''"
    by blast
  have 2: "authMiddleware (box\<lparr>now := now box + 604800000\<rparr>) (Some (issue box ''64b0000000000000000000aa''))
     = Respond (send 401 (Message ''Invalid token''))"
    by (simp add: authMiddleware_def issue_def jwt_sign_def expiresIn_7d_def box_def JWT_SECRET_def)
  have 3: "authMiddleware box (Some (Jws \<lparr>userId = ''64b0000000000000000000aa'', iat = 0, exp = 99999999\<rparr> ''forged''))
     = Respond (send 401 (Message ''Invalid token''))"
    by (simp add: authMiddleware_def box_def JWT_SECRET_def)
  have 4: "authMiddleware box (Some (Opaque ''garbage'')) = Respond (send 401 (Message ''Invalid token''))"
    by (simp add: authMiddleware_def)
  from 1 2 3 4 show ?thesis by blast
qed

subsection \<open>The protected route\<close>

text \<open>
  Claim C5.  On \<^verbatim>\<open>GET /api/auth/me\<close>: when the token cookie is absent or the token
  fails verification, the middleware answers with status 401, and that is the response
  of the route whatever the store holds (the handler does not run); when the token
  verifies, the middleware passes on with \<^verbatim>\<open>req.userId\<close> set to the decoded
  identifier, and the route's response is the handler's for that identifier.
\<close>

theorem auth_middleware_gate:
  "(cookie = None \<or>
    (\<exists>tok err. cookie = Some tok \<and>
        jwt_verify (hmac e) tok (JWT_SECRET e) (now e div 1000) = Inl err) \<longrightarrow>
      (\<exists>r. authMiddleware e cookie = Respond r \<and> status r = 401 \<and>
           (\<forall>st. me_route e st cookie = r))) \<and>
   (\<forall>tok decoded. cookie = Some tok \<and>
        jwt_verify (hmac e) tok (JWT_SECRET e) (now e div 1000) = Inr decoded \<longrightarrow>
      authMiddleware e cookie = Next (userId decoded) \<and>
      (\<forall>st. me_route e st cookie = me_handler st (userId decoded)))"
proof -
  have a: "cookie = None \<or>
    (\<exists>tok err. cookie = Some tok \<and>
        jwt_verify (hmac e) tok (JWT_SECRET e) (now e div 1000) = Inl err) \<longrightarrow>
      (\<exists>r. authMiddleware e cookie = Respond r \<and> status r = 401 \<and>
           (\<forall>st. me_route e st cookie = r))"
    by (auto simp add: authMiddleware_def me_route_def)
  have b: "\<forall>tok decoded. cookie = Some tok \<and>
        jwt_verify (hmac e) tok (JWT_SECRET e) (now e div 1000) = Inr decoded \<longrightarrow>
      authMiddleware e cookie = Next (userId decoded) \<and>
      (\<forall>st. me_route e st cookie = me_handler st (userId decoded))"
    by (auto simp add: authMiddleware_def me_route_def)
  from a b show ?thesis by blast
qed

theorem auth_middleware_gate_witness:
  "me_route box (shop\<lparr>users := [al]\<rparr>) None = send 401 (Message ''No authentication token provided'') \<and>
   me_route box (shop\<lparr>users := [al]\<rparr>) (Some (Opaque ''garbage'')) = send 401 (Message ''Invalid token'') \<and>
   authMiddleware box (Some (issue box (u_id al))) = Next (u_id al) \<and>
   me_route box (shop\<lparr>users := [al]\<rparr>) (Some (issue box (u_id al))) =
     send 200 (UserDoc (u_id al) ''Al'' ''al@example.com'' 0)"
proof -
  let ?st = "shop\<lparr>users := [al]\<rparr>"
  have 1: "me_route box ?st None = send 401 (Message ''No authentication token provided'')"
    using auth_middleware_gate [of None box] by (simp add: authMiddleware_def)
  have v: "jwt_verify (hmac box) (Opaque ''garbage'') (JWT_SECRET box) (now box div 1000) = Inl JwtMalformed"
    by simp
  have 2: "me_route box ?st (Some (Opaque ''garbage'')) = send 401 (Message ''Invalid token'')"
    using auth_middleware_gate [of "Some (Opaque ''garbage'')" box] v by (auto simp add: authMiddleware_def)
  have 3: "authMiddleware box (Some (issue box (u_id al))) = Next (u_id al) \<and>
     me_route box ?st (Some (issue box (u_id al))) = me_handler ?st (u_id al)"
    using auth_middleware_gate [of "Some (issue box (u_id al))" box] verify_issue [of box "u_id al"]
    by simp
  have 4: "me_handler ?st (u_id al) = send 200 (UserDoc (u_id al) ''Al'' ''al@example.com'' 0)"
    by (simp add: me_handler_def User_findById_def shop_def al_def hex24_def is_digit_def digit_val_def)
  from 1 2 3 4 show ?thesis by simp
qed




subsection \<open>Registration\<close>

lemma register_created:
  assumes "status (snd (register e st b)) = 201"
  shows "connected st \<and> truthy (name b) \<and> truthy (email b) \<and> truthy (password b) \<and>
         fst (register e st b) =
           st\<lparr>users := users st @
                 [\<lparr>u_id = new_id e, u_name = the (name b), u_email = the (email b),
                   u_password = bcrypt_hash e (the (password b)) 10, u_createdAt = now e\<rparr>]\<rparr>"
  using assms
  by (auto simp add: register_def User_findOne_def User_save_def Let_def
           split: if_splits option.splits sum.splits)

lemma register_existing:
  assumes "connected st" and "truthy (name b)" and "truthy (email b)" and "truthy (password b)"
      and "\<exists>u\<in>set (users st). u_email u = the (email b)"
  shows "register e st b = (st, send 400 (Message ''User already exists''))"
proof -
  from assms(5) have "find (\<lambda>u. u_email u = the (email b)) (users st) \<noteq> None"
    by (auto simp add: find_None_iff)
  then obtain u where "find (\<lambda>u. u_email u = the (email b)) (users st) = Some u"
    by blast
  with assms(1-4) show ?thesis
    by (simp add: register_def User_findOne_def)
qed

lemma register_fresh:
  assumes "connected st" and "truthy (name b)" and "truthy (email b)" and "truthy (password b)"
      and "\<forall>u\<in>set (users st). u_email u \<noteq> the (email b) \<and> u_id u \<noteq> new_id e"
  shows "status (snd (register e st b)) = 201"
proof -
  from assms(5) have "find (\<lambda>u. u_email u = the (email b)) (users st) = None"
    by (simp add: find_None_iff)
  moreover from assms(5) have "\<not> list_ex (\<lambda>v. u_email v = the (email b) \<or> u_id v = new_id e) (users st)"
    by (auto simp add: list_ex_iff)
  ultimately show ?thesis using assms(1-4)
    by (simp add: register_def User_findOne_def User_save_def Let_def)
qed

text \<open>
  Claim C6.  A registration with all three fields present, for an email no stored user
  has, against a reachable store, is answered 201; and whenever a registration is
  answered 201, every later registration with the same email (all fields present),
  served on the store the first one left, is answered 400 with the message
  \<^verbatim>\<open>User already exists\<close> and leaves the store as it is.  A registration in which the
  name, the email or the password is missing (or empty) is answered 400 with the message
  \<^verbatim>\<open>All fields are required\<close> and leaves the store unchanged.
\<close>

theorem register_twice:
  "(connected st \<and> truthy (name b) \<and> truthy (email b) \<and> truthy (password b) \<and>
    (\<forall>u\<in>set (users st). u_email u \<noteq> the (email b) \<and> u_id u \<noteq> new_id e) \<longrightarrow>
      status (snd (register e st b)) = 201) \<and>
   (status (snd (register e st b)) = 201 \<longrightarrow>
      (\<forall>e' b'. email b' = email b \<and> truthy (name b') \<and> truthy (password b') \<longrightarrow>
         register e' (fst (register e st b)) b' =
           (fst (register e st b), send 400 (Message ''User already exists'')))) \<and>
   (\<not> truthy (name b) \<or> \<not> truthy (email b) \<or> \<not> truthy (password b) \<longrightarrow>
      register e st b = (st, send 400 (Message ''All fields are required'')))"
proof -
  have a: "connected st \<and> truthy (name b) \<and> truthy (email b) \<and> truthy (password b) \<and>
    (\<forall>u\<in>set (users st). u_email u \<noteq> the (email b) \<and> u_id u \<noteq> new_id e) \<longrightarrow>
      status (snd (register e st b)) = 201"
    using register_fresh by blast
  have b: "status (snd (register e st b)) = 201 \<longrightarrow>
      (\<forall>e' b'. email b' = email b \<and> truthy (name b') \<and> truthy (password b') \<longrightarrow>
         register e' (fst (register e st b)) b' =
           (fst (register e st b), send 400 (Message ''User already exists'')))"
  proof (intro impI allI)
    fix e' :: env and b' :: credentials
    assume ok: "status (snd (register e st b)) = 201"
       and same: "email b' = email b \<and> truthy (name b') \<and> truthy (password b')"
    let ?st' = "fst (register e st b)"
    from register_created [OF ok] have c: "connected ?st'" and t: "truthy (email b')"
      and u: "\<exists>u\<in>set (users ?st'). u_email u = the (email b')"
      using same by simp_all
    from register_existing [OF c _ t _ u] same
    show "register e' ?st' b' = (?st', send 400 (Message ''User already exists''))"
      by simp
  qed
  have c: "\<not> truthy (name b) \<or> \<not> truthy (email b) \<or> \<not> truthy (password b) \<longrightarrow>
      register e st b = (st, send 400 (Message ''All fields are required''))"
    by (auto simp add: register_def)
  from a b c show ?thesis by blast
qed

theorem register_twice_witness:
  "status (snd (register box shop al_signup)) = 201 \<and>
   snd (register box (fst (register box shop al_signup)) al_signup) =
     send 400 (Message ''User already exists'') \<and>
   register box shop (al_signup\<lparr>password := None\<rparr>) =
     (shop, send 400 (Message ''All fields are required''))"
proof -
  have h: "connected shop \<and> truthy (name al_signup) \<and> truthy (email al_signup) \<and>
           truthy (password al_signup) \<and>
           (\<forall>u\<in>set (users shop). u_email u \<noteq> the (email al_signup) \<and> u_id u \<noteq> new_id box)"
    by (simp add: shop_def al_signup_def)
  have m: "\<not> truthy (password (al_signup\<lparr>password := None\<rparr>))"
    by simp
  from register_twice [of shop al_signup box] h
  have 1: "status (snd (register box shop al_signup)) = 201"
    and 2: "register box (fst (register box shop al_signup)) al_signup =
           (fst (register box shop al_signup), send 400 (Message ''User already exists''))"
    by blast+
  from register_twice [of shop "al_signup\<lparr>password := None\<rparr>" box] m
  have 3: "register box shop (al_signup\<lparr>password := None\<rparr>) =
     (shop, send 400 (Message ''All fields are required''))"
    by blast
  from 1 2 3 show ?thesis by simp
qed


subsection \<open>The product listing\<close>

lemma as_nat_of_nat [simp]: "as_nat (Fin (of_nat n)) = Some n"
  by (simp add: as_nat_def)


lemma set_cut: "set (cut w xs) \<subseteq> set xs"
  by (cases w) (auto simp add: cut_def dest: in_set_takeD in_set_dropD)

lemma products_handler_page:
  assumes "page_info (products_handler st r) = Some pg"
  shows "\<exists>ys w. query_fault st (build_query r) = None \<and>
           sorted_by st (build_sort r) (filter (matches st (build_query r)) (products st)) = Inr ys \<and>
           window st (js_mul (js_sub (num_param (page r) 1) (Fin 1)) (num_param (limit r) 8))
                     (num_param (limit r) 8) = Inr w \<and>
           items (products_handler st r) = cut w ys \<and>
           pg = \<lparr>pg_page = num_param (page r) 1, pg_limit = num_param (limit r) 8,
                 pg_total = length (filter (matches st (build_query r)) (products st)),
                 pg_pages = Math_ceil (js_div (Fin (of_nat (length (filter (matches st (build_query r)) (products st)))))
                                              (num_param (limit r) 8))\<rparr>"
  using assms
  by (auto simp add: page_info_def items_def products_handler_def Product_find_def
        Product_countDocuments_def Let_def send_def split: sum.splits option.splits)

lemma items_no_page:
  "page_info (products_handler st r) = None \<Longrightarrow> items (products_handler st r) = []"
  by (auto simp add: page_info_def items_def split: body.splits)

lemma build_query_search:
  "search r = Some s \<Longrightarrow> s \<noteq> [] \<Longrightarrow>
   \<exists>rest. build_query r =
     Or [(''name'', Regex s ''i''), (''title'', Regex s ''i''),
         (''brand'', Regex s ''i''), (''category'', Regex s ''i'')] # rest \<and>
     or_groups rest = [] \<and> regex_tests rest = []"
  by (simp add: build_query_def str_param_def regex_tests_def)

lemma build_query_no_search:
  "\<not> truthy (search r) \<Longrightarrow> or_groups (build_query r) = [] \<and> regex_tests (build_query r) = []"
  by (cases "search r") (simp_all add: build_query_def str_param_def regex_tests_def)

lemma or_group_hit:
  assumes "satisfies st p (Or [(''name'', Regex s ''i''), (''title'', Regex s ''i''),
                               (''brand'', Regex s ''i''), (''category'', Regex s ''i'')])"
  shows "\<exists>m. regex st s ''i'' = Some m \<and>
             (m (p_name p) \<or> m (p_title p) \<or> m (p_brand p) \<or> m (p_category p))"
  using assms by (auto simp add: text_field_def split: option.splits)

lemma items_match:
  assumes "sort_rearranges st" and "p \<in> set (items (products_handler st r))"
  shows "matches st (build_query r) p"
proof (cases "page_info (products_handler st r)")
  case None
  with assms(2) show ?thesis by (simp add: items_no_page)
next
  case (Some pg)
  from products_handler_page [OF Some] obtain ys w where
    s: "sorted_by st (build_sort r) (filter (matches st (build_query r)) (products st)) = Inr ys"
    and i: "items (products_handler st r) = cut w ys"
    by blast
  from assms(1) s have "mset ys = mset (filter (matches st (build_query r)) (products st))"
    unfolding sort_rearranges_def by blast
  then have "set ys = set (filter (matches st (build_query r)) (products st))"
    by (rule mset_eq_setD)
  moreover from assms(2) i set_cut have "p \<in> set ys" by fastforce
  ultimately show ?thesis by simp
qed

text \<open>
  Claim C1, as amended.  For a store whose sort returns a rearrangement of its input:
  when \<^verbatim>\<open>search\<close> is a non-empty string, the filter has exactly one \<^verbatim>\<open>$or\<close> group,
  made of the four tests \<^verbatim>\<open>{$regex: search, $options: 'i'}\<close> on \<^verbatim>\<open>name\<close>,
  \<^verbatim>\<open>title\<close>, \<^verbatim>\<open>brand\<close> and \<^verbatim>\<open>category\<close>, and these are all its regular-expression
  tests; the pattern then compiles and matches, as a regular expression, at least one of
  the four fields of every item of the response.  Every item of a response satisfies
  every clause of the filter.  When \<^verbatim>\<open>search\<close> is absent or empty the filter has no
  \<^verbatim>\<open>$or\<close> group and no regular-expression test.
\<close>

theorem search_predicate:
  assumes "sort_rearranges st"
  shows "(\<forall>s. search r = Some s \<and> s \<noteq> [] \<longrightarrow>
            or_groups (build_query r) =
              [[(''name'', Regex s ''i''), (''title'', Regex s ''i''),
                (''brand'', Regex s ''i''), (''category'', Regex s ''i'')]] \<and>
            regex_tests (build_query r) =
              [Regex s ''i'', Regex s ''i'', Regex s ''i'', Regex s ''i''] \<and>
            (\<forall>p\<in>set (items (products_handler st r)).
                \<exists>m. regex st s ''i'' = Some m \<and>
                    (m (p_name p) \<or> m (p_title p) \<or> m (p_brand p) \<or> m (p_category p)))) \<and>
         (\<forall>p\<in>set (items (products_handler st r)). matches st (build_query r) p) \<and>
         (\<not> truthy (search r) \<longrightarrow>
            or_groups (build_query r) = [] \<and> regex_tests (build_query r) = [])"
proof -
  have a: "\<forall>s. search r = Some s \<and> s \<noteq> [] \<longrightarrow>
            or_groups (build_query r) =
              [[(''name'', Regex s ''i''), (''title'', Regex s ''i''),
                (''brand'', Regex s ''i''), (''category'', Regex s ''i'')]] \<and>
            regex_tests (build_query r) =
              [Regex s ''i'', Regex s ''i'', Regex s ''i'', Regex s ''i''] \<and>
            (\<forall>p\<in>set (items (products_handler st r)).
                \<exists>m. regex st s ''i'' = Some m \<and>
                    (m (p_name p) \<or> m (p_title p) \<or> m (p_brand p) \<or> m (p_category p)))"
  proof (intro allI impI)
    fix s assume h: "search r = Some s \<and> s \<noteq> []"
    then obtain rest where q: "build_query r =
        Or [(''name'', Regex s ''i''), (''title'', Regex s ''i''),
            (''brand'', Regex s ''i''), (''category'', Regex s ''i'')] # rest"
      and o: "or_groups rest = []" and t: "regex_tests rest = []"
      using build_query_search by blast
    have 1: "or_groups (build_query r) =
              [[(''name'', Regex s ''i''), (''title'', Regex s ''i''),
                (''brand'', Regex s ''i''), (''category'', Regex s ''i'')]]"
      using q o by simp
    have 2: "regex_tests (build_query r) =
              [Regex s ''i'', Regex s ''i'', Regex s ''i'', Regex s ''i'']"
      using q t by (simp add: regex_tests_def)
    have 3: "\<forall>p\<in>set (items (products_handler st r)).
                \<exists>m. regex st s ''i'' = Some m \<and>
                    (m (p_name p) \<or> m (p_title p) \<or> m (p_brand p) \<or> m (p_category p))"
    proof
      fix p assume "p \<in> set (items (products_handler st r))"
      with assms have "matches st (build_query r) p" by (rule items_match)
      with q have "satisfies st p (Or [(''name'', Regex s ''i''), (''title'', Regex s ''i''),
            (''brand'', Regex s ''i''), (''category'', Regex s ''i'')])"
        by (simp add: matches_def)
      then show "\<exists>m. regex st s ''i'' = Some m \<and>
                    (m (p_name p) \<or> m (p_title p) \<or> m (p_brand p) \<or> m (p_category p))"
        by (rule or_group_hit)
    qed
    from 1 2 3 show "or_groups (build_query r) =
              [[(''name'', Regex s ''i''), (''title'', Regex s ''i''),
                (''brand'', Regex s ''i''), (''category'', Regex s ''i'')]] \<and>
            regex_tests (build_query r) =
              [Regex s ''i'', Regex s ''i'', Regex s ''i'', Regex s ''i''] \<and>
            (\<forall>p\<in>set (items (products_handler st r)).
                \<exists>m. regex st s ''i'' = Some m \<and>
                    (m (p_name p) \<or> m (p_title p) \<or> m (p_brand p) \<or> m (p_category p)))"
      by blast
  qed
  have b: "\<forall>p\<in>set (items (products_handler st r)). matches st (build_query r) p"
    using assms items_match by blast
  have c: "\<not> truthy (search r) \<longrightarrow>
            or_groups (build_query r) = [] \<and> regex_tests (build_query r) = []"
    using build_query_no_search by blast
  from a b c show ?thesis by blast
qed

lemma shop_sort_rearranges: "sort_rearranges shop"
  by (simp add: sort_rearranges_def shop_def)

theorem search_predicate_witness:
  "items (products_handler shop (no_query\<lparr>search := Some ''red''\<rparr>)) = [apple] \<and>
   or_groups (build_query (no_query\<lparr>search := Some ''red''\<rparr>)) =
     [[(''name'', Regex ''red'' ''i''), (''title'', Regex ''red'' ''i''),
       (''brand'', Regex ''red'' ''i''), (''category'', Regex ''red'' ''i'')]] \<and>
   (\<exists>m. regex shop ''red'' ''i'' = Some m \<and>
        (m (p_name apple) \<or> m (p_title apple) \<or> m (p_brand apple) \<or> m (p_category apple))) \<and>
   or_groups (build_query no_query) = []"
proof -
  let ?r = "no_query\<lparr>search := Some ''red''\<rparr>"
  have i: "items (products_handler shop ?r) = [apple]"
    by code_simp
  have s: "search ?r = Some ''red'' \<and> ''red'' \<noteq> []"
    by simp
  have n: "\<not> truthy (search no_query)"
    by (simp add: no_query_def)
  from search_predicate [OF shop_sort_rearranges, of ?r] s i
  have 1: "or_groups (build_query ?r) =
     [[(''name'', Regex ''red'' ''i''), (''title'', Regex ''red'' ''i''),
       (''brand'', Regex ''red'' ''i''), (''category'', Regex ''red'' ''i'')]]"
    and 2: "\<exists>m. regex shop ''red'' ''i'' = Some m \<and>
        (m (p_name apple) \<or> m (p_title apple) \<or> m (p_brand apple) \<or> m (p_category apple))"
    by auto
  from search_predicate [OF shop_sort_rearranges, of no_query] n
  have 3: "or_groups (build_query no_query) = []"
    by blast
  from i 1 2 3 show ?thesis by blast
qed

text \<open>
  Claim C1 as stated fails for a search string with a character the regular-expression
  syntax gives a meaning: \<^verbatim>\<open>GET /api/products?search=.\<close> returns the product named
  \<^verbatim>\<open>Apple\<close>, none of whose four fields contains a full stop.
\<close>

theorem search_wildcard_not_substring:
  "apple \<in> set (items (products_handler shop (no_query\<lparr>search := Some ''.''\<rparr>))) \<and>
   \<not> ci_substring ''.'' (p_name apple) \<and> \<not> ci_substring ''.'' (p_title apple) \<and>
   \<not> ci_substring ''.'' (p_brand apple) \<and> \<not> ci_substring ''.'' (p_category apple)"
proof -
  have "items (products_handler shop (no_query\<lparr>search := Some ''.''\<rparr>)) = [apple, milk, bread]"
    by code_simp
  moreover have "\<not> ci_substring ''.'' (p_name apple) \<and> \<not> ci_substring ''.'' (p_title apple) \<and>
   \<not> ci_substring ''.'' (p_brand apple) \<and> \<not> ci_substring ''.'' (p_category apple)"
    by code_simp
  ultimately show ?thesis by simp
qed








end
